theory Spec2Isabelle
  imports Main "HOL-Library.AList"
begin

section \<open>Values, strings and dictionaries of the Python program\<close>

text \<open>
  The bot (\<^verbatim>\<open>src/bot.py\<close>) keeps one global dictionary \<^verbatim>\<open>user_threads\<close> from the
  integer id of a Discord user to the id of that user's OpenAI thread, and mirrors it in the
  JSON file \<^verbatim>\<open>user_threads_data.json\<close>. The values of the dictionary are whatever
  \<^verbatim>\<open>json.load\<close> read (the loader converts the keys only) or the \<^verbatim>\<open>thread.id\<close> string of a
  thread the bot created, so they are modelled as JSON values. \<open>JNum\<close> stands for a JSON
  number; like Python, the model treats it as false exactly when it is zero.
\<close>

datatype json =
    JNull
  | JBool bool
  | JNum int
  | JStr string
  | JArr "json list"
  | JObj "(string \<times> json) list"

text \<open>Python's truth value of an object: what \<^verbatim>\<open>if not thread_id\<close> tests.\<close>

fun truthy :: "json \<Rightarrow> bool" where
  "truthy JNull = False"
| "truthy (JBool b) = b"
| "truthy (JNum n) = (n \<noteq> 0)"
| "truthy (JStr s) = (s \<noteq> [])"
| "truthy (JArr xs) = (xs \<noteq> [])"
| "truthy (JObj kvs) = (kvs \<noteq> [])"

text \<open>
  A Python \<^verbatim>\<open>dict\<close> is an association list in insertion order with distinct keys.
  \<^verbatim>\<open>d[k] = v\<close> is \<^const>\<open>AList.update\<close> (the value is replaced in place, a new key goes
  to the end), \<^verbatim>\<open>del d[k]\<close> is \<^const>\<open>AList.delete\<close>, \<^verbatim>\<open>k in d\<close> is \<open>dict_in\<close> and
  \<^verbatim>\<open>d.get(k)\<close> is \<open>dict_get\<close>, which answers \<^verbatim>\<open>None\<close> (here \<open>JNull\<close>) for a missing key.
\<close>

type_synonym threads = "(int \<times> json) list"

definition dict_get :: "threads \<Rightarrow> int \<Rightarrow> json" where
  "dict_get d k = (case map_of d k of None \<Rightarrow> JNull | Some v \<Rightarrow> v)"

definition dict_in :: "int \<Rightarrow> threads \<Rightarrow> bool" where
  "dict_in k d = (map_of d k \<noteq> None)"

subsection \<open>\<^verbatim>\<open>str(k)\<close> and \<^verbatim>\<open>int(s)\<close> on user ids\<close>

text \<open>
  A character of the model is a code point below 256; strings with other code points are
  not modelled. \<open>is_space\<close> is the white space of \<^verbatim>\<open>str.strip()\<close> among them: the
  characters 9 to 13, 28 to 31 and 32, and the two above 127, 133 and 160.
\<close>

definition is_space :: "char \<Rightarrow> bool" where
  "is_space c = (of_char c \<in> {9, 10, 11, 12, 13, 28, 29, 30, 31, 32, 133, 160 :: nat})"

text \<open>\<^verbatim>\<open>s.strip()\<close>: white space is dropped at both ends.\<close>

definition strip :: "string \<Rightarrow> string" where
  "strip s = rev (dropWhile is_space (rev (dropWhile is_space s)))"

text \<open>
  The white space that \<^verbatim>\<open>int(s)\<close> skips at both ends is another set: the characters 9 to
  13 and 32, and the white space above 127 (here 133 and 160), which \<^verbatim>\<open>int\<close> takes for
  blanks. The characters 28 to 31 are not skipped: a key with one of them raises
  \<^verbatim>\<open>ValueError\<close>.
\<close>

definition int_space :: "char \<Rightarrow> bool" where
  "int_space c = (of_char c \<in> {9, 10, 11, 12, 13, 32, 133, 160 :: nat})"

definition int_strip :: "string \<Rightarrow> string" where
  "int_strip s = rev (dropWhile int_space (rev (dropWhile int_space s)))"

definition is_digit :: "char \<Rightarrow> bool" where
  "is_digit c = (48 \<le> (of_char c :: nat) \<and> (of_char c :: nat) \<le> 57)"

definition digit_val :: "char \<Rightarrow> nat" where
  "digit_val c = of_char c - 48"

definition digit_char :: "nat \<Rightarrow> char" where
  "digit_char d = char_of (48 + d)"

fun nat_digits :: "nat \<Rightarrow> string" where
  "nat_digits n = (if n < 10 then [digit_char n] else nat_digits (n div 10) @ [digit_char (n mod 10)])"

declare nat_digits.simps [simp del]

text \<open>\<^verbatim>\<open>str(k)\<close> for an integer: the decimal digits, with a minus sign below zero.\<close>

definition py_str :: "int \<Rightarrow> string" where
  "py_str i = (if i < 0 then CHR ''-'' # nat_digits (nat (- i)) else nat_digits (nat i))"

text \<open>
  The digits of \<^verbatim>\<open>int(s)\<close>, read left to right into an accumulator. Python allows one
  underscore between two digits and nowhere else.
\<close>

fun digits_acc :: "nat \<Rightarrow> string \<Rightarrow> nat option" where
  "digits_acc acc [] = Some acc"
| "digits_acc acc (c # cs) =
     (if c = CHR ''_'' then
        (case cs of [] \<Rightarrow> None
         | d # ds \<Rightarrow> if is_digit d then digits_acc acc cs else None)
      else if is_digit c then digits_acc (10 * acc + digit_val c) cs
      else None)"

definition digits_value :: "string \<Rightarrow> nat option" where
  "digits_value ds =
     (case ds of [] \<Rightarrow> None
      | d # _ \<Rightarrow> if is_digit d then digits_acc 0 ds else None)"

text \<open>
  \<^verbatim>\<open>int(s)\<close> for a string: surrounding white space is ignored, one sign is allowed, and
  anything else than a decimal numeral raises \<^verbatim>\<open>ValueError\<close>, which is \<open>None\<close> here.
  The bound that recent versions of Python put on the number of digits is not modelled.
\<close>

definition py_int :: "string \<Rightarrow> int option" where
  "py_int s =
     (case int_strip s of [] \<Rightarrow> None
      | c # cs \<Rightarrow>
          if c = CHR ''-'' then map_option (\<lambda>n. - int n) (digits_value cs)
          else if c = CHR ''+'' then map_option int (digits_value cs)
          else map_option int (digits_value (c # cs)))"

section \<open>Effects\<close>

text \<open>
  What the program does to the outside is recorded as a trace of events: a log record (its
  level only), a message sent to the Discord channel, a sleep (in milliseconds) and each
  call of the OpenAI client with the arguments that matter.
\<close>

datatype level = Debug | Info | Warning | Error | Critical

datatype event =
    Log level
  | Send string
  | Sleep nat
  | CreateThread
  | PostMessage json string
  | StartRun json
  | RetrieveRun json string
  | CancelRun json string
  | ListMessages json
  | DeleteThread json

text \<open>
  The file \<^verbatim>\<open>THREAD_DATA_FILE\<close> as \<^verbatim>\<open>open\<close> and \<^verbatim>\<open>json.load\<close> see it: absent
  (\<^verbatim>\<open>FileNotFoundError\<close>), not readable for another reason, not JSON
  (\<^verbatim>\<open>json.JSONDecodeError\<close>), or the document that \<^verbatim>\<open>json.load\<close> returns.
\<close>

datatype disk_file = NoFile | Unreadable | Malformed | Document json

record world =
  user_threads :: threads
  disk :: disk_file
  trace :: "event list"

definition emit :: "event \<Rightarrow> world \<Rightarrow> world" where
  "emit e w = w\<lparr>trace := trace w @ [e]\<rparr>"

section \<open>Persistence: \<^verbatim>\<open>load_threads\<close> and \<^verbatim>\<open>save_threads\<close>\<close>

text \<open>
  Line 28, \<^verbatim>\<open>{int(k): v for k, v in data_from_file.items()}\<close>: the items are inserted in
  order; the first key that is not an integer numeral raises \<^verbatim>\<open>ValueError\<close>.
\<close>

fun int_keys :: "(string \<times> json) list \<Rightarrow> threads \<Rightarrow> threads option" where
  "int_keys [] d = Some d"
| "int_keys ((k, v) # kvs) d =
     (case py_int k of None \<Rightarrow> None
      | Some i \<Rightarrow> int_keys kvs (AList.update i v d))"

text \<open>
  \<^verbatim>\<open>load_threads\<close> (lines 21-38). Every exception is caught: a missing file is a warning,
  everything else (no JSON, a document that is not an object and so has no \<^verbatim>\<open>items\<close>, a key
  that \<^verbatim>\<open>int\<close> refuses, a file that cannot be read) is an error, and all of them leave
  the dictionary empty.
\<close>

definition load_threads :: "world \<Rightarrow> world" where
  "load_threads w =
     (case disk w of
        NoFile \<Rightarrow> emit (Log Warning) (w\<lparr>user_threads := []\<rparr>)
      | Malformed \<Rightarrow> emit (Log Error) (w\<lparr>user_threads := []\<rparr>)
      | Unreadable \<Rightarrow> emit (Log Error) (w\<lparr>user_threads := []\<rparr>)
      | Document (JObj kvs) \<Rightarrow>
          (case int_keys kvs [] of
             Some d \<Rightarrow> emit (Log Info) (w\<lparr>user_threads := d\<rparr>)
           | None \<Rightarrow> emit (Log Error) (w\<lparr>user_threads := []\<rparr>))
      | Document _ \<Rightarrow> emit (Log Error) (w\<lparr>user_threads := []\<rparr>))"

text \<open>
  Line 46, \<^verbatim>\<open>{str(k): v for k, v in user_threads.items()}\<close>.
\<close>

definition data_to_save :: "threads \<Rightarrow> (string \<times> json) list" where
  "data_to_save d = fold (\<lambda>(k, v) acc. AList.update (py_str k) v acc) d []"

text \<open>
  What happens to the file when \<^verbatim>\<open>save_threads\<close> writes it: the write succeeds, or
  \<^verbatim>\<open>open\<close> fails and the file stays as it was, or the write fails after \<^verbatim>\<open>open\<close> has
  truncated the file.
\<close>

datatype write_result = Written | OpenFailed | DumpFailed

text \<open>
  \<^verbatim>\<open>save_threads\<close> (lines 40-50): the whole dictionary is written; a failure is logged and
  the dictionary in memory stays as it is.
\<close>

definition save_threads :: "write_result \<Rightarrow> world \<Rightarrow> world" where
  "save_threads r w =
     (case r of
        Written \<Rightarrow> w\<lparr>disk := Document (JObj (data_to_save (user_threads w)))\<rparr>
      | OpenFailed \<Rightarrow> emit (Log Error) w
      | DumpFailed \<Rightarrow> emit (Log Error) (w\<lparr>disk := Malformed\<rparr>))"

section \<open>The OpenAI client and the Discord message\<close>

text \<open>
  The exceptions the handler tells apart: \<^verbatim>\<open>openai.RateLimitError\<close> and
  \<^verbatim>\<open>openai.NotFoundError\<close> (both are subclasses of \<^verbatim>\<open>openai.APIError\<close>), any other
  \<^verbatim>\<open>openai.APIError\<close>, and any other \<^verbatim>\<open>Exception\<close>.
\<close>

datatype exn = RateLimitError | NotFoundError | APIError | OtherException

text \<open>A run as the client returns it: \<^verbatim>\<open>run.id\<close>, \<^verbatim>\<open>run.status\<close> and the code of
  \<^verbatim>\<open>run.last_error\<close> when there is one.\<close>

record run =
  id' :: string
  status :: string
  last_error :: "string option"

text \<open>A content block of a thread message: a block of type \<^verbatim>\<open>text\<close> with its
  \<^verbatim>\<open>text.value\<close>, or a block of another type.\<close>

datatype block = TextBlock string | OtherBlock

record message =
  role :: string
  run_id :: "string option"
  content :: "block list"

text \<open>
  The answers of the outside world during one call of the handler. Each call site of the
  client is reached at most once per inbound message, except \<^verbatim>\<open>runs.retrieve\<close>, whose
  \<open>k\<close>-th call is answered by \<open>retrieve_result env k\<close>. Time is counted in milliseconds:
  \<open>start_time\<close> is what \<^verbatim>\<open>time.time()\<close> returns on line 136, and the \<open>k\<close>-th turn of
  the polling loop (the sleep of 1.5 s and the call of \<^verbatim>\<open>runs.retrieve\<close>) takes
  \<open>1500 + lag env k\<close> milliseconds. Sending to the Discord channel is taken to succeed.
\<close>

record env =
  create_result :: "exn + string"
  save_on_create :: write_result
  post_result :: "exn option"
  run_result :: "exn + run"
  start_time :: int
  retrieve_result :: "nat \<Rightarrow> exn + run"
  lag :: "nat \<Rightarrow> nat"
  cancel_result :: "exn option"
  list_result :: "exn + message list"
  save_on_reset :: write_result
  delete_result :: "exn + bool"

text \<open>
  The inbound \<^verbatim>\<open>discord.Message\<close>: whether the bot wrote it itself, the author's id and
  mention string, the guild (\<open>None\<close> in a direct message), the result of
  \<^verbatim>\<open>discord_client.user.mentioned_in(message)\<close>, \<^verbatim>\<open>message.mention_everyone\<close> and
  \<^verbatim>\<open>message.content\<close>.
\<close>

record discord_message =
  author_is_bot :: bool
  author_id :: int
  author_mention :: string
  guild :: "int option"
  mentioned :: bool
  mention_everyone :: bool
  text_content :: string

text \<open>The two call sites of the assistant logic: the direct-message branch (lines 94-249)
  and the server-mention branch (lines 254-437). They differ in the texts they send only.\<close>

datatype place = DirectMessage | ServerMention

definition reply_prefix :: "place \<Rightarrow> string \<Rightarrow> string" where
  "reply_prefix pl mention = (case pl of DirectMessage \<Rightarrow> [] | ServerMention \<Rightarrow> mention @ '' '')"

definition emits :: "event list \<Rightarrow> world \<Rightarrow> world" where
  "emits es w = w\<lparr>trace := trace w @ es\<rparr>"

section \<open>Step 1: get or create the thread of the user\<close>

text \<open>
  Lines 102-116 and 293-307. The result is the thread id to use, or \<open>None\<close> when
  \<^verbatim>\<open>threads.create\<close> raised and the handler returns.
\<close>

definition resolve :: "place \<Rightarrow> string \<Rightarrow> env \<Rightarrow> int \<Rightarrow> world \<Rightarrow> json option \<times> world" where
  "resolve pl mention env user_id w =
     (let thread_id = dict_get (user_threads w) user_id in
      if \<not> truthy thread_id then
        (let w1 = emit CreateThread (emit (Log Info) w) in
         case create_result env of
           Inr new_id \<Rightarrow>
             (let w2 = w1\<lparr>user_threads := AList.update user_id (JStr new_id) (user_threads w1)\<rparr>;
                  w3 = save_threads (save_on_create env) w2
              in (Some (JStr new_id), emit (Log Info) w3))
         | Inl api_error \<Rightarrow>
             (None,
              emit (Send (reply_prefix pl mention @
                ''Sorry, I couldn't initiate our conversation context. Please try again later.''))
                (emit (Log Error) w1)))
      else (Some thread_id, emit (Log Debug) w))"

section \<open>Step 4: polling the run\<close>

datatype poll_end = Settled run | TimedOut | PollRaised exn

text \<open>The condition of the loop, \<^verbatim>\<open>run.status in ['queued', 'in_progress', 'cancelling']\<close>.\<close>

definition pending :: "run \<Rightarrow> bool" where
  "pending r = (status r \<in> set [''queued'', ''in_progress'', ''cancelling''])"

text \<open>
  The loop of lines 139-152 and 330-342. \<open>start\<close> is \<^verbatim>\<open>start_time\<close>, \<open>now\<close> the clock,
  \<open>k\<close> the number of turns made so far. A turn sleeps, retrieves the run and reads the
  clock; past the deadline of 120 s it tries to cancel the run (a failure of the cancel is
  logged and nothing more), tells the user and returns from the handler.
\<close>

function poll_loop ::
  "string \<Rightarrow> env \<Rightarrow> json \<Rightarrow> int \<Rightarrow> int \<Rightarrow> nat \<Rightarrow> run \<Rightarrow> world \<Rightarrow> poll_end \<times> int \<times> world" where
  "poll_loop pre env thread_id start now k r w =
     (if pending r then
        (let now' = now + 1500 + int (lag env k);
             w1 = emit (RetrieveRun thread_id (id' r)) (emit (Sleep 1500) w)
         in case retrieve_result env k of
              Inl e \<Rightarrow> (PollRaised e, now', w1)
            | Inr r' \<Rightarrow>
                if now' - start > 120000 then
                  (let w2 = emit (CancelRun thread_id (id' r')) (emit (Log Warning) w1);
                       w3 = (case cancel_result env of
                               None \<Rightarrow> emit (Log Info) w2
                             | Some cancel_err \<Rightarrow> emit (Log Error) w2)
                   in (TimedOut, now',
                       emit (Send (pre @
                         ''Sorry, the request took too long to process. Please try again.'')) w3))
                else poll_loop pre env thread_id start now' (Suc k) r' w1)
      else (Settled r, now, w))"
  by pat_completeness auto
termination
  by (relation "measure (\<lambda>(pre, env, thread_id, start, now, k, r, w). nat (start + 121500 - now))") auto

declare poll_loop.simps [simp del]

section \<open>Step 5: the reply\<close>

text \<open>The inner loop of lines 165-167: the values of the text blocks of one message.\<close>

fun text_values :: "block list \<Rightarrow> string list" where
  "text_values [] = []"
| "text_values (TextBlock t # bs) = t # text_values bs"
| "text_values (OtherBlock # bs) = text_values bs"

text \<open>
  The loop of lines 163-171 and 352-358 over \<^verbatim>\<open>reversed(messages_response.data)\<close>:
  \<open>acc\<close> is \<^verbatim>\<open>assistant_responses\<close>, and the loop breaks after a message of role
  \<^verbatim>\<open>user\<close> whose run id is not this run's.
\<close>

fun scan :: "string \<Rightarrow> message list \<Rightarrow> string list \<Rightarrow> string list" where
  "scan rid [] acc = acc"
| "scan rid (msg # msgs) acc =
     (let acc' = (if run_id msg = Some rid \<and> role msg = ''assistant''
                  then acc @ text_values (content msg) else acc)
      in if role msg = ''user'' \<and> run_id msg \<noteq> Some rid then acc' else scan rid msgs acc')"

definition assistant_responses :: "string \<Rightarrow> message list \<Rightarrow> string list" where
  "assistant_responses rid data = scan rid (rev data) []"

text \<open>\<^verbatim>\<open>sep.join(xs)\<close>.\<close>

fun join :: "string \<Rightarrow> string list \<Rightarrow> string" where
  "join sep [] = []"
| "join sep [x] = x"
| "join sep (x # y # ys) = x @ sep @ join sep (y # ys)"

text \<open>Line 176: \<^verbatim>\<open>"\n".join(reversed(assistant_responses))\<close>.\<close>

definition full_response :: "string list \<Rightarrow> string" where
  "full_response rs = join [CHR 0x0A] (rev rs)"

text \<open>\<^verbatim>\<open>range(0, n, step)\<close> and line 183,
  \<^verbatim>\<open>[full_response[i:i+1990] for i in range(0, len(full_response), 1990)]\<close>.\<close>

definition range_step :: "nat \<Rightarrow> nat \<Rightarrow> nat list" where
  "range_step n step = map (\<lambda>j. j * step) [0 ..< (n + step - 1) div step]"

definition parts :: "string \<Rightarrow> string list" where
  "parts s = map (\<lambda>i. take 1990 (drop i s)) (range_step (length s) 1990)"

text \<open>
  Sending the reply, lines 180-186 and 367-376: one message when it fits into 2000
  characters, else the parts in order with half a second between them; in a server the
  mention comes first, in the same message when that fits and in its own message else.
\<close>

definition send_response :: "place \<Rightarrow> string \<Rightarrow> string \<Rightarrow> event list" where
  "send_response pl mention full =
     (case pl of
        DirectMessage \<Rightarrow>
          if length full \<le> 2000 then [Send full]
          else concat (map (\<lambda>part. [Send part, Sleep 500]) (parts full))
      | ServerMention \<Rightarrow>
          (let response_prefix = mention @ '' '' in
           if length (response_prefix @ full) \<le> 2000 then [Send (response_prefix @ full)]
           else Send response_prefix # concat (map (\<lambda>part. [Send part, Sleep 500]) (parts full))))"

definition reset_text :: string where
  "reset_text = ''I seemed to have trouble retrieving the last response, so I've reset our conversation context. Please try sending your message again!''"

text \<open>
  The reset of lines 189-224 and 379-413, taken when no text of the assistant was found:
  the mapping of the user is deleted and the dictionary saved, the thread is deleted at
  OpenAI when its id is known (every failure of that call is caught and logged), and the
  user is told.
\<close>

definition reset_thread :: "place \<Rightarrow> string \<Rightarrow> env \<Rightarrow> int \<Rightarrow> world \<Rightarrow> world" where
  "reset_thread pl mention env user_id w =
     (let w0 = emit (Log Warning) w;
          problematic_thread_id = dict_get (user_threads w0) user_id;
          w1 = (if dict_in user_id (user_threads w0) then
                  emit (Log Info)
                    (save_threads (save_on_reset env)
                      (w0\<lparr>user_threads := AList.delete user_id (user_threads w0)\<rparr>))
                else emit (Log Warning) w0);
          w2 = (if truthy problematic_thread_id then
                  (let w' = emit (DeleteThread problematic_thread_id) (emit (Log Info) w1) in
                   case delete_result env of
                     Inr deleted \<Rightarrow> emit (Log (if deleted then Info else Warning)) w'
                   | Inl NotFoundError \<Rightarrow> emit (Log Warning) w'
                   | Inl delete_error \<Rightarrow> emit (Log Error) w')
                else emit (Log Warning) w1)
      in emit (Send (case pl of
                       DirectMessage \<Rightarrow> reset_text
                     | ServerMention \<Rightarrow> strip (mention @ '' '' @ reset_text))) w2)"

text \<open>How one request ends. The handler itself returns nothing; the label names the branch
  it took.\<close>

datatype outcome =
    Replied
  | EmptyReply
  | Timeout
  | RequiresAction
  | RunFailed
  | RunUnhandledStatus
  | SessionCreationFailed
  | Raised exn

text \<open>Lines 155-239 and 345-427: what the handler does with the run the loop ended on.\<close>

definition respond ::
  "place \<Rightarrow> string \<Rightarrow> env \<Rightarrow> int \<Rightarrow> json \<Rightarrow> run \<Rightarrow> world \<Rightarrow> outcome \<times> world" where
  "respond pl mention env user_id thread_id r w =
     (if status r = ''completed'' then
        (let w1 = emit (ListMessages thread_id) (emit (Log Debug) w) in
         case list_result env of
           Inl e \<Rightarrow> (Raised e, w1)
         | Inr data \<Rightarrow>
             (let rs = assistant_responses (id' r) data in
              if rs \<noteq> [] then
                (Replied, emits (send_response pl mention (full_response rs)) (emit (Log Info) w1))
              else (EmptyReply, reset_thread pl mention env user_id w1)))
      else if status r = ''requires_action'' then
        (RequiresAction,
         emit (Send (reply_prefix pl mention @
           ''Sorry, I need to perform an action I can't do right now.'')) (emit (Log Warning) w))
      else if status r = ''failed'' then
        (RunFailed,
         emit (Send (reply_prefix pl mention @ ''Sorry, something went wrong while processing.'' @
           (case last_error r of None \<Rightarrow> [] | Some code \<Rightarrow> '' (Error code: '' @ code @ '')'')))
           (emit (Log Error) w))
      else
        (RunUnhandledStatus,
         emit (Send (reply_prefix pl mention @
           ''Sorry, the processing ended unexpectedly. (Status: '' @ status r @ '')''))
           (emit (Log Error) w)))"

section \<open>The handler\<close>

text \<open>
  Steps 2 to 5 for a thread id (lines 119-239 and 310-427): the message is added to the
  thread, a run is started and polled, and the run's end is answered. An exception of the
  client leaves through \<open>Raised\<close>.
\<close>

definition run_cycle ::
  "place \<Rightarrow> string \<Rightarrow> env \<Rightarrow> int \<Rightarrow> json \<Rightarrow> string \<Rightarrow> world \<Rightarrow> outcome \<times> world" where
  "run_cycle pl mention env user_id thread_id txt w =
     (let w1 = emit (PostMessage thread_id txt) (emit (Log Debug) w) in
      case post_result env of
        Some e \<Rightarrow> (Raised e, w1)
      | None \<Rightarrow>
          (let w2 = emit (StartRun thread_id) (emit (Log Debug) w1) in
           case run_result env of
             Inl e \<Rightarrow> (Raised e, w2)
           | Inr r \<Rightarrow>
               (case poll_loop (reply_prefix pl mention) env thread_id
                       (start_time env) (start_time env) 0 r (emit (Log Debug) w2) of
                  (PollRaised e, fin, w3) \<Rightarrow> (Raised e, w3)
                | (TimedOut, fin, w3) \<Rightarrow> (Timeout, w3)
                | (Settled r', fin, w3) \<Rightarrow> respond pl mention env user_id thread_id r' w3)))"

text \<open>The \<^verbatim>\<open>except\<close> clauses of lines 241-249 and 429-437.\<close>

definition handle_exn :: "place \<Rightarrow> string \<Rightarrow> exn \<Rightarrow> world \<Rightarrow> world" where
  "handle_exn pl mention e w =
     (case e of
        RateLimitError \<Rightarrow>
          emit (Send (reply_prefix pl mention @
            ''I'm experiencing high demand right now. Please wait a moment and try again.''))
            (emit (Log Warning) w)
      | OtherException \<Rightarrow>
          emit (Send (case pl of
                  DirectMessage \<Rightarrow>
                    ''Sorry, I encountered an unexpected error trying to process your DM.''
                | ServerMention \<Rightarrow>
                    mention @ '' Sorry, I encountered an unexpected error trying to process that.''))
            (emit (Log Error) w)
      | _ \<Rightarrow>
          emit (Send (reply_prefix pl mention @
            ''There was an issue communicating with the AI service. Please try again later.''))
            (emit (Log Error) w))"

text \<open>The \<^verbatim>\<open>try\<close> block of either branch: step 1, then steps 2 to 5.\<close>

definition assistant_logic ::
  "place \<Rightarrow> string \<Rightarrow> env \<Rightarrow> int \<Rightarrow> string \<Rightarrow> world \<Rightarrow> outcome \<times> world" where
  "assistant_logic pl mention env user_id txt w =
     (case resolve pl mention env user_id w of
        (None, w1) \<Rightarrow> (SessionCreationFailed, w1)
      | (Some thread_id, w1) \<Rightarrow>
          (case run_cycle pl mention env user_id thread_id txt w1 of
             (Raised e, w2) \<Rightarrow> (Raised e, handle_exn pl mention e w2)
           | (oc, w2) \<Rightarrow> (oc, w2)))"

text \<open>\<^verbatim>\<open>s.replace(pat, '')\<close>: every occurrence of \<open>pat\<close>, from the left, is taken out.\<close>

function remove_all :: "string \<Rightarrow> string \<Rightarrow> string" where
  "remove_all pat [] = []"
| "remove_all pat (c # cs) =
     (if pat \<noteq> [] \<and> take (length pat) (c # cs) = pat
      then remove_all pat (drop (length pat) (c # cs))
      else c # remove_all pat cs)"
  by pat_completeness auto
termination
  by (relation "measure (\<lambda>(pat, s). length s)") auto

text \<open>
  \<^verbatim>\<open>on_message\<close> (lines 84-439). \<open>bot_id\<close> is \<^verbatim>\<open>discord_client.user.id\<close>. A direct
  message goes to the assistant with its content as it is; a server message is handled
  when the bot is mentioned (and not through everyone), with the mentions of the bot taken
  out and the rest stripped, and an empty rest is answered with a question.
\<close>

definition on_message :: "int \<Rightarrow> env \<Rightarrow> discord_message \<Rightarrow> world \<Rightarrow> world" where
  "on_message bot_id env m w =
     (if author_is_bot m then w
      else if guild m = None then
        snd (assistant_logic DirectMessage (author_mention m) env (author_id m) (text_content m)
               (emit (Log Info) w))
      else if mentioned m then
        (if mention_everyone m then emit (Log Debug) w
         else
           (let w1 = emit (Log Info) w;
                actual_content =
                  strip (remove_all (''<@'' @ py_str bot_id @ ''>'')
                          (remove_all (''<@!'' @ py_str bot_id @ ''>'') (text_content m)))
            in if actual_content = [] then
                 emit (Send (''Hi '' @ author_mention m @ '', did you need something?'')) w1
               else
                 snd (assistant_logic ServerMention (author_mention m) env (author_id m)
                        actual_content w1)))
      else w)"

section \<open>Reading a trace\<close>

text \<open>The calls of the client that the properties count, and the texts sent to the channel.\<close>

fun is_create :: "event \<Rightarrow> bool" where
  "is_create CreateThread = True"
| "is_create _ = False"



fun is_delete :: "event \<Rightarrow> bool" where
  "is_delete (DeleteThread t) = True"
| "is_delete _ = False"

definition calls :: "(event \<Rightarrow> bool) \<Rightarrow> world \<Rightarrow> nat" where
  "calls P w = length (filter P (trace w))"

fun sent_texts :: "event list \<Rightarrow> string list" where
  "sent_texts [] = []"
| "sent_texts (Send s # es) = s # sent_texts es"
| "sent_texts (e # es) = sent_texts es"

text \<open>
  An outside world for the examples: every call succeeds, the new thread is
  \<^verbatim>\<open>thread_1\<close>, the run \<^verbatim>\<open>run_1\<close> is queued and stays in progress for ever, the clock
  starts at 0 and no turn of the loop is late.
\<close>

definition calm :: env where
  "calm = \<lparr>create_result = Inr ''thread_1'',
           save_on_create = Written,
           post_result = None,
           run_result = Inr \<lparr>id' = ''run_1'', status = ''queued'', last_error = None\<rparr>,
           start_time = 0,
           retrieve_result =
             (\<lambda>k. Inr \<lparr>id' = ''run_1'', status = ''in_progress'', last_error = None\<rparr>),
           lag = (\<lambda>k. 0),
           cancel_result = None,
           list_result = Inr [],
           save_on_reset = Written,
           delete_result = Inr True\<rparr>"


section \<open>The round trip through the file\<close>

lemma is_digit_digit_char: "d < 10 \<Longrightarrow> is_digit (digit_char d)"
  by (simp add: is_digit_def digit_char_def)

lemma digit_val_digit_char: "d < 10 \<Longrightarrow> digit_val (digit_char d) = d"
  by (simp add: digit_val_def digit_char_def)

lemma is_digit_not_space: "is_digit c \<Longrightarrow> \<not> int_space c"
  by (auto simp: is_digit_def int_space_def)

lemma is_digit_not_sign: "is_digit c \<Longrightarrow> c \<noteq> CHR ''-'' \<and> c \<noteq> CHR ''+'' \<and> c \<noteq> CHR ''_''"
  by (auto simp: is_digit_def)

lemma nat_digits_all: "\<forall>c \<in> set (nat_digits n). is_digit c"
  by (induction n rule: nat_digits.induct) (subst nat_digits.simps, auto simp: is_digit_digit_char)

lemma nat_digits_nonempty: "nat_digits n \<noteq> []"
  by (subst nat_digits.simps) simp

lemma nat_digits_hd: "is_digit (hd (nat_digits n))"
  using nat_digits_all [of n] nat_digits_nonempty [of n] by (cases "nat_digits n") auto

lemma nat_digits_last: "is_digit (last (nat_digits n))"
  using nat_digits_all [of n] nat_digits_nonempty [of n] last_in_set by blast

lemma digits_acc_all:
  "\<forall>c \<in> set ds. is_digit c \<Longrightarrow>
   digits_acc acc ds = Some (foldl (\<lambda>a c. 10 * a + digit_val c) acc ds)"
  by (induction ds arbitrary: acc) (auto simp: is_digit_not_sign)

lemma foldl_nat_digits: "foldl (\<lambda>a c. 10 * a + digit_val c) 0 (nat_digits n) = n"
  by (induction n rule: nat_digits.induct) (subst nat_digits.simps, auto simp: digit_val_digit_char)

lemma digits_value_nat_digits: "digits_value (nat_digits n) = Some n"
proof -
  obtain d ds where ds: "nat_digits n = d # ds"
    using nat_digits_nonempty [of n] by (cases "nat_digits n") auto
  have "is_digit d" using nat_digits_all [of n] ds by simp
  then show ?thesis
    using ds digits_acc_all [OF nat_digits_all, of 0 n] foldl_nat_digits [of n]
    by (simp add: digits_value_def)
qed

lemma dropWhile_hd: "xs \<noteq> [] \<Longrightarrow> \<not> P (hd xs) \<Longrightarrow> dropWhile P xs = xs"
  by (cases xs) auto

lemma int_strip_id:
  "s \<noteq> [] \<Longrightarrow> \<not> int_space (hd s) \<Longrightarrow> \<not> int_space (last s) \<Longrightarrow> int_strip s = s"
  by (simp add: int_strip_def dropWhile_hd hd_rev)

lemma strip_py_str: "int_strip (py_str i) = py_str i"
proof (rule int_strip_id)
  show "py_str i \<noteq> []" by (simp add: py_str_def nat_digits_nonempty)
  show "\<not> int_space (hd (py_str i))"
    using nat_digits_hd by (auto simp: py_str_def is_digit_not_space) (simp add: int_space_def)
  show "\<not> int_space (last (py_str i))"
    using nat_digits_last by (auto simp: py_str_def is_digit_not_space nat_digits_nonempty)
qed

text \<open>\<^verbatim>\<open>int(str(i)) == i\<close> for every integer.\<close>

lemma py_int_py_str: "py_int (py_str i) = Some i"
proof (cases "i < 0")
  case True
  then show ?thesis
    unfolding py_int_def strip_py_str by (simp add: py_str_def digits_value_nat_digits)
next
  case False
  obtain d ds where ds: "nat_digits (nat i) = d # ds"
    using nat_digits_nonempty [of "nat i"] by (cases "nat_digits (nat i)") auto
  have "is_digit d" using nat_digits_hd [of "nat i"] ds by simp
  then have "d \<noteq> CHR ''-''" "d \<noteq> CHR ''+''" using is_digit_not_sign by auto
  moreover have "digits_value (d # ds) = Some (nat i)"
    using digits_value_nat_digits [of "nat i"] ds by simp
  ultimately show ?thesis
    unfolding py_int_def strip_py_str using False ds by (simp add: py_str_def)
qed

lemma py_str_inj: "py_str i = py_str j \<Longrightarrow> i = j"
  using py_int_py_str by (metis option.inject)

lemma update_fresh: "k \<notin> fst ` set al \<Longrightarrow> AList.update k v al = al @ [(k, v)]"
  by (induction al) auto

lemma data_to_save_gen:
  "distinct (map fst d) \<Longrightarrow> py_str ` fst ` set d \<inter> fst ` set acc = {} \<Longrightarrow>
   fold (\<lambda>(k, v) acc. AList.update (py_str k) v acc) d acc = acc @ map (\<lambda>(k, v). (py_str k, v)) d"
proof (induction d arbitrary: acc)
  case Nil
  then show ?case by simp
next
  case (Cons p d)
  obtain k v where p: "p = (k, v)" by (cases p)
  have fresh: "py_str k \<notin> fst ` set acc" using Cons.prems(2) p by auto
  have k: "k \<notin> fst ` set d" and dist: "distinct (map fst d)" using Cons.prems(1) p by auto
  have "py_str ` fst ` set d \<inter> fst ` set (acc @ [(py_str k, v)]) = {}"
    using Cons.prems(2) k p by (auto dest: py_str_inj)
  from Cons.IH [OF dist this] show ?case
    by (simp add: p update_fresh [OF fresh])
qed

lemma int_keys_gen:
  "distinct (map fst d) \<Longrightarrow> fst ` set d \<inter> fst ` set acc = {} \<Longrightarrow>
   int_keys (map (\<lambda>(k, v). (py_str k, v)) d) acc = Some (acc @ d)"
proof (induction d arbitrary: acc)
  case Nil
  then show ?case by simp
next
  case (Cons p d)
  obtain k v where p: "p = (k, v)" by (cases p)
  have fresh: "k \<notin> fst ` set acc" using Cons.prems(2) p by auto
  have k: "k \<notin> fst ` set d" and dist: "distinct (map fst d)" using Cons.prems(1) p by auto
  have "fst ` set d \<inter> fst ` set (acc @ [(k, v)]) = {}"
    using Cons.prems(2) k p by auto
  from Cons.IH [OF dist this] show ?case
    by (simp add: p py_int_py_str update_fresh [OF fresh])
qed

lemma data_to_save_eq:
  "distinct (map fst d) \<Longrightarrow> data_to_save d = map (\<lambda>(k, v). (py_str k, v)) d"
  using data_to_save_gen [of d "[]"] by (simp add: data_to_save_def)

text \<open>
  C4. Saving the dictionary and loading the file gives the dictionary back, from the file
  alone: when \<open>user_threads\<close> of \<open>w\<close> is a dictionary (its integer keys are distinct) and a
  \<open>save_threads\<close> in \<open>w\<close> has written the file, then \<open>load_threads\<close> in any state that has
  this file, whatever its own dictionary and trace are, ends with \<open>user_threads\<close> equal to
  the one that was saved, keys, values and order.
\<close>

theorem load_save_round_trip:
  "distinct (map fst (user_threads w)) \<Longrightarrow>
   disk w' = disk (save_threads Written w) \<Longrightarrow>
   user_threads (load_threads w') = user_threads w"
  using int_keys_gen [of "user_threads w" "[]"]
  by (simp add: load_threads_def save_threads_def data_to_save_eq emit_def)

theorem load_save_round_trip_witness:
  "distinct (map fst [(42 :: int, JStr ''thread_a''), (-7, JStr ''thread_b'')])
   \<and> disk \<lparr>user_threads = [(1, JNull)],
            disk = Document (JObj [(''42'', JStr ''thread_a''), (''-7'', JStr ''thread_b'')]),
            trace = [Log Info]\<rparr>
     = disk (save_threads Written
         \<lparr>user_threads = [(42, JStr ''thread_a''), (-7, JStr ''thread_b'')],
          disk = NoFile, trace = []\<rparr>)
   \<and> user_threads (load_threads
         \<lparr>user_threads = [(1, JNull)],
          disk = Document (JObj [(''42'', JStr ''thread_a''), (''-7'', JStr ''thread_b'')]),
          trace = [Log Info]\<rparr>)
     = [(42, JStr ''thread_a''), (-7, JStr ''thread_b'')]"
proof -
  let ?w = "\<lparr>user_threads = [(42, JStr ''thread_a''), (-7, JStr ''thread_b'')],
            disk = NoFile, trace = []\<rparr>"
  let ?w' = "\<lparr>user_threads = [(1, JNull)],
             disk = Document (JObj [(''42'', JStr ''thread_a''), (''-7'', JStr ''thread_b'')]),
             trace = [Log Info]\<rparr>"
  have d: "distinct (map fst [(42 :: int, JStr ''thread_a''), (-7, JStr ''thread_b'')])"
    by simp
  have d': "distinct (map fst (user_threads ?w))" by simp
  have f: "disk ?w' = disk (save_threads Written ?w)" by code_simp
  have "user_threads (load_threads ?w') = user_threads ?w"
    by (rule load_save_round_trip [OF d' f])
  then have l: "user_threads (load_threads ?w')
      = [(42, JStr ''thread_a''), (-7, JStr ''thread_b'')]"
    by simp
  show ?thesis by (intro conjI) (rule d, rule f, rule l)
qed

section \<open>Loading at startup\<close>

text \<open>
  C8. \<open>load_threads\<close> never fails: a missing file gives the empty dictionary and one
  warning, a file that is not JSON gives the empty dictionary and one error, and so does a
  document that is not an object of integer keys; in every case it returns a state with a
  dictionary, one log record added and the file untouched.
\<close>

theorem load_threads_never_fails:
  "(disk w = NoFile \<longrightarrow>
      load_threads w = w\<lparr>user_threads := [], trace := trace w @ [Log Warning]\<rparr>)
   \<and> (disk w = Malformed \<longrightarrow>
      load_threads w = w\<lparr>user_threads := [], trace := trace w @ [Log Error]\<rparr>)
   \<and> (\<forall>j. disk w = Document j \<and> (\<forall>kvs. j = JObj kvs \<longrightarrow> int_keys kvs [] = None) \<longrightarrow>
      load_threads w = w\<lparr>user_threads := [], trace := trace w @ [Log Error]\<rparr>)
   \<and> (\<exists>d l. load_threads w = w\<lparr>user_threads := d, trace := trace w @ [Log l]\<rparr>)"
proof (intro conjI impI allI)
  assume "disk w = NoFile"
  then show "load_threads w = w\<lparr>user_threads := [], trace := trace w @ [Log Warning]\<rparr>"
    by (simp add: load_threads_def emit_def)
next
  assume "disk w = Malformed"
  then show "load_threads w = w\<lparr>user_threads := [], trace := trace w @ [Log Error]\<rparr>"
    by (simp add: load_threads_def emit_def)
next
  fix j
  assume "disk w = Document j \<and> (\<forall>kvs. j = JObj kvs \<longrightarrow> int_keys kvs [] = None)"
  then show "load_threads w = w\<lparr>user_threads := [], trace := trace w @ [Log Error]\<rparr>"
    by (cases j) (simp_all add: load_threads_def emit_def)
next
  show "\<exists>d l. load_threads w = w\<lparr>user_threads := d, trace := trace w @ [Log l]\<rparr>"
    by (auto simp: load_threads_def emit_def split: disk_file.splits json.splits option.splits)
qed

theorem load_threads_never_fails_witness:
  "disk \<lparr>user_threads = [(1, JStr ''t'')], disk = NoFile, trace = []\<rparr> = NoFile
   \<and> load_threads \<lparr>user_threads = [(1, JStr ''t'')], disk = NoFile, trace = []\<rparr>
       = \<lparr>user_threads = [], disk = NoFile, trace = [Log Warning]\<rparr>
   \<and> disk \<lparr>user_threads = [(1, JStr ''t'')], disk = Malformed, trace = []\<rparr> = Malformed
   \<and> load_threads \<lparr>user_threads = [(1, JStr ''t'')], disk = Malformed, trace = []\<rparr>
       = \<lparr>user_threads = [], disk = Malformed, trace = [Log Error]\<rparr>
   \<and> int_keys [(''12'', JStr ''t''), (''x'', JStr ''u'')] [] = None
   \<and> load_threads \<lparr>user_threads = [(1, JStr ''t'')],
         disk = Document (JObj [(''12'', JStr ''t''), (''x'', JStr ''u'')]), trace = []\<rparr>
       = \<lparr>user_threads = [],
          disk = Document (JObj [(''12'', JStr ''t''), (''x'', JStr ''u'')]), trace = [Log Error]\<rparr>"
proof -
  have k: "int_keys [(''12'', JStr ''t''), (''x'', JStr ''u'')] [] = None"
    by code_simp
  show ?thesis
    using k
      load_threads_never_fails [of "\<lparr>user_threads = [(1, JStr ''t'')], disk = NoFile, trace = []\<rparr>"]
      load_threads_never_fails [of "\<lparr>user_threads = [(1, JStr ''t'')], disk = Malformed, trace = []\<rparr>"]
      load_threads_never_fails [of "\<lparr>user_threads = [(1, JStr ''t'')],
         disk = Document (JObj [(''12'', JStr ''t''), (''x'', JStr ''u'')]), trace = []\<rparr>"]
    by simp
qed


section \<open>Step 1: one thread per user\<close>

lemma calls_emit [simp]: "calls P (emit e w) = calls P w + (if P e then 1 else 0)"
  by (simp add: calls_def emit_def)

lemma emit_fields [simp]:
  "user_threads (emit e w) = user_threads w" "disk (emit e w) = disk w"
  "trace (emit e w) = trace w @ [e]"
  by (simp_all add: emit_def)

lemma save_threads_user_threads [simp]: "user_threads (save_threads r w) = user_threads w"
  by (cases r) (simp_all add: save_threads_def)

lemma save_threads_calls [simp]: "\<not> P (Log Error) \<Longrightarrow> calls P (save_threads r w) = calls P w"
  by (cases r) (simp_all add: save_threads_def calls_def)

lemma dict_get_absent: "map_of d k = None \<Longrightarrow> dict_get d k = JNull"
  by (simp add: dict_get_def)

lemma update_absent: "map_of d k = None \<Longrightarrow> AList.update k v d = d @ [(k, v)]"
  by (rule update_fresh) (simp add: map_of_eq_None_iff)


text \<open>
  C1. When the dictionary has no entry for the user and \<^verbatim>\<open>threads.create\<close> returns a
  (non-empty) thread id, step 1 calls \<^verbatim>\<open>threads.create\<close> exactly once, appends exactly one
  entry that maps the user to the returned id, and a \<open>save_threads\<close> that succeeds leaves the
  file holding the new dictionary. A second run of step 1 right after it, whatever the
  outside world answers, returns the same id and adds nothing but a debug log record: no
  call of the client and no change of the dictionary or of the file.
\<close>

theorem resolve_creates_once:
  assumes absent: "map_of (user_threads w) user_id = None"
    and created: "create_result env = Inr new_id"
    and nonempty: "new_id \<noteq> []"
    and res: "resolve pl mention env user_id w = (r, w1)"
  shows "r = Some (JStr new_id) \<and>
         calls is_create w1 = calls is_create w + 1 \<and>
         user_threads w1 = user_threads w @ [(user_id, JStr new_id)] \<and>
         (save_on_create env = Written \<longrightarrow>
            disk w1 = Document (JObj (data_to_save (user_threads w1)))) \<and>
         (\<forall>pl' mention' env'.
            resolve pl' mention' env' user_id w1 = (Some (JStr new_id), emit (Log Debug) w1))"
proof -
  have w1: "w1 = emit (Log Info) (save_threads (save_on_create env)
              ((emit CreateThread (emit (Log Info) w))
                 \<lparr>user_threads := user_threads w @ [(user_id, JStr new_id)]\<rparr>))"
    and r: "r = Some (JStr new_id)"
    using res absent created by (simp_all add: resolve_def dict_get_absent update_absent Let_def)
  have ut: "user_threads w1 = user_threads w @ [(user_id, JStr new_id)]"
    by (simp add: w1)
  have again: "dict_get (user_threads w1) user_id = JStr new_id"
    using absent by (simp add: ut dict_get_def map_add_def split: option.splits)
  have "calls is_create w1 = calls is_create w + 1"
    by (simp add: w1) (simp add: calls_def emit_def)
  moreover have "save_on_create env = Written \<longrightarrow>
      disk w1 = Document (JObj (data_to_save (user_threads w1)))"
    by (simp add: w1 save_threads_def)
  moreover have "\<forall>pl' mention' env'.
      resolve pl' mention' env' user_id w1 = (Some (JStr new_id), emit (Log Debug) w1)"
    using nonempty by (simp add: resolve_def again)
  ultimately show ?thesis using r ut by simp
qed

theorem resolve_creates_once_witness:
  "map_of (user_threads \<lparr>user_threads = [(5, JStr ''thread_0'')], disk = NoFile, trace = []\<rparr>) 7 = None \<and>
   resolve DirectMessage ''<@7>'' calm 7 \<lparr>user_threads = [(5, JStr ''thread_0'')], disk = NoFile, trace = []\<rparr>
     = (Some (JStr ''thread_1''),
        \<lparr>user_threads = [(5, JStr ''thread_0''), (7, JStr ''thread_1'')],
         disk = Document (JObj [(''5'', JStr ''thread_0''), (''7'', JStr ''thread_1'')]),
         trace = [Log Info, CreateThread, Log Info]\<rparr>) \<and>
   resolve ServerMention ''<@7>'' calm 7
        \<lparr>user_threads = [(5, JStr ''thread_0''), (7, JStr ''thread_1'')],
         disk = Document (JObj [(''5'', JStr ''thread_0''), (''7'', JStr ''thread_1'')]),
         trace = [Log Info, CreateThread, Log Info]\<rparr>
     = (Some (JStr ''thread_1''),
        \<lparr>user_threads = [(5, JStr ''thread_0''), (7, JStr ''thread_1'')],
         disk = Document (JObj [(''5'', JStr ''thread_0''), (''7'', JStr ''thread_1'')]),
         trace = [Log Info, CreateThread, Log Info, Log Debug]\<rparr>)"
proof -
  let ?w = "\<lparr>user_threads = [(5, JStr ''thread_0'')], disk = NoFile, trace = []\<rparr>"
  let ?w1 = "\<lparr>user_threads = [(5, JStr ''thread_0''), (7, JStr ''thread_1'')],
         disk = Document (JObj [(''5'', JStr ''thread_0''), (''7'', JStr ''thread_1'')]),
         trace = [Log Info, CreateThread, Log Info]\<rparr>"
  have a: "map_of (user_threads ?w) 7 = None" by simp
  have c: "create_result calm = Inr ''thread_1''" by (simp add: calm_def)
  have n: "''thread_1'' \<noteq> []" by simp
  have e: "resolve DirectMessage ''<@7>'' calm 7 ?w = (Some (JStr ''thread_1''), ?w1)"
    by code_simp
  from resolve_creates_once [OF a c n e] a e show ?thesis
    by (simp add: emit_def)
qed


lemma calls_user_threads_update [simp]: "calls P (w\<lparr>user_threads := d\<rparr>) = calls P w"
  by (simp add: calls_def)

lemma calls_resolve:
  "calls is_create (snd (resolve pl mention env user_id w)) =
   calls is_create w + (if truthy (dict_get (user_threads w) user_id) then 0 else 1)"
  by (cases "create_result env") (simp_all add: resolve_def Let_def)

text \<open>
  C10. Step 1 decides by truth value, not by membership. When the dictionary maps the user to
  the empty string, \<^verbatim>\<open>threads.create\<close> is called once and the entry is overwritten in
  place with the new id; a mapping to a non-empty string is returned as it is, with no call
  of the client. In general, step 1 makes no call of \<^verbatim>\<open>threads.create\<close> exactly when
  the stored value is true.
\<close>

theorem resolve_by_truthiness:
  "(map_of (user_threads w) user_id = Some (JStr []) \<and> create_result env = Inr new_id \<longrightarrow>
      fst (resolve pl mention env user_id w) = Some (JStr new_id) \<and>
      calls is_create (snd (resolve pl mention env user_id w)) = calls is_create w + 1 \<and>
      user_threads (snd (resolve pl mention env user_id w))
        = AList.update user_id (JStr new_id) (user_threads w) \<and>
      map_of (user_threads (snd (resolve pl mention env user_id w))) user_id
        = Some (JStr new_id))
   \<and> (\<forall>s. map_of (user_threads w) user_id = Some (JStr s) \<and> s \<noteq> [] \<longrightarrow>
          resolve pl mention env user_id w = (Some (JStr s), emit (Log Debug) w))
   \<and> (calls is_create (snd (resolve pl mention env user_id w)) = calls is_create w
          \<longleftrightarrow> truthy (dict_get (user_threads w) user_id))"
proof (intro conjI impI allI)
  assume "map_of (user_threads w) user_id = Some (JStr []) \<and> create_result env = Inr new_id"
  then have r: "resolve pl mention env user_id w =
      (Some (JStr new_id),
       emit (Log Info) (save_threads (save_on_create env)
         ((emit CreateThread (emit (Log Info) w))
            \<lparr>user_threads := AList.update user_id (JStr new_id) (user_threads w)\<rparr>)))"
    by (simp add: resolve_def dict_get_def Let_def)
  show "fst (resolve pl mention env user_id w) = Some (JStr new_id)"
    by (simp add: r)
  show "calls is_create (snd (resolve pl mention env user_id w)) = calls is_create w + 1"
    by (simp add: r)
  show "user_threads (snd (resolve pl mention env user_id w))
        = AList.update user_id (JStr new_id) (user_threads w)"
    by (simp add: r)
  show "map_of (user_threads (snd (resolve pl mention env user_id w))) user_id
        = Some (JStr new_id)"
    by (simp add: r update_conv')
next
  fix s assume "map_of (user_threads w) user_id = Some (JStr s) \<and> s \<noteq> []"
  then show "resolve pl mention env user_id w = (Some (JStr s), emit (Log Debug) w)"
    by (simp add: resolve_def dict_get_def)
next
  show "calls is_create (snd (resolve pl mention env user_id w)) = calls is_create w
          \<longleftrightarrow> truthy (dict_get (user_threads w) user_id)"
    by (simp add: calls_resolve)
qed

theorem resolve_by_truthiness_witness:
  "(map_of [(7, JStr [])] (7 :: int) = Some (JStr []) \<and> create_result calm = Inr ''thread_1'')
   \<and> fst (resolve DirectMessage ''<@7>'' calm 7
            \<lparr>user_threads = [(7, JStr [])], disk = NoFile, trace = []\<rparr>) = Some (JStr ''thread_1'')
   \<and> user_threads (snd (resolve DirectMessage ''<@7>'' calm 7
            \<lparr>user_threads = [(7, JStr [])], disk = NoFile, trace = []\<rparr>)) = [(7, JStr ''thread_1'')]
   \<and> (map_of [(7, JStr ''thread_0'')] (7 :: int) = Some (JStr ''thread_0'') \<and> ''thread_0'' \<noteq> [])
   \<and> resolve DirectMessage ''<@7>'' calm 7
        \<lparr>user_threads = [(7, JStr ''thread_0'')], disk = NoFile, trace = []\<rparr>
       = (Some (JStr ''thread_0''),
          \<lparr>user_threads = [(7, JStr ''thread_0'')], disk = NoFile, trace = [Log Debug]\<rparr>)"
proof -
  let ?w = "\<lparr>user_threads = [(7, JStr [])], disk = NoFile, trace = []\<rparr>"
  let ?v = "\<lparr>user_threads = [(7, JStr ''thread_0'')], disk = NoFile, trace = []\<rparr>"
  have a: "map_of (user_threads ?w) 7 = Some (JStr []) \<and> create_result calm = Inr ''thread_1''"
    by (simp add: calm_def)
  have b: "map_of (user_threads ?v) 7 = Some (JStr ''thread_0'') \<and> ''thread_0'' \<noteq> []"
    by simp
  note t1 = resolve_by_truthiness [of ?w 7 calm "''thread_1''" DirectMessage "''<@7>''",
      THEN conjunct1, THEN mp, OF a]
  note t2 = resolve_by_truthiness [of ?v 7 calm "''thread_1''" DirectMessage "''<@7>''",
      THEN conjunct2, THEN conjunct1, THEN spec, THEN mp, OF b]
  show ?thesis using a b t1 t2 by (simp add: emit_def)
qed

section \<open>The polling loop\<close>

lemma emits_fields [simp]:
  "user_threads (emits es w) = user_threads w" "disk (emits es w) = disk w"
  "trace (emits es w) = trace w @ es"
  by (simp_all add: emits_def)

lemma poll_loop_settled:
  "\<not> pending r \<Longrightarrow> poll_loop pre env tid start now k r w = (Settled r, now, w)"
  by (subst poll_loop.simps) simp

lemma poll_loop_raised:
  "pending r \<Longrightarrow> retrieve_result env k = Inl e \<Longrightarrow>
   poll_loop pre env tid start now k r w =
     (PollRaised e, now + 1500 + int (lag env k),
      emit (RetrieveRun tid (id' r)) (emit (Sleep 1500) w))"
  by (subst poll_loop.simps) simp

lemma poll_loop_timed_out:
  "pending r \<Longrightarrow> retrieve_result env k = Inr r' \<Longrightarrow>
   now + 1500 + int (lag env k) - start > 120000 \<Longrightarrow>
   poll_loop pre env tid start now k r w =
     (TimedOut, now + 1500 + int (lag env k),
      emit (Send (pre @ ''Sorry, the request took too long to process. Please try again.''))
        (emit (Log (case cancel_result env of None \<Rightarrow> Info | Some e \<Rightarrow> Error))
          (emit (CancelRun tid (id' r')) (emit (Log Warning)
            (emit (RetrieveRun tid (id' r)) (emit (Sleep 1500) w))))))"
  by (subst poll_loop.simps) (simp add: Let_def split: option.splits)

lemma poll_loop_again:
  "pending r \<Longrightarrow> retrieve_result env k = Inr r' \<Longrightarrow>
   \<not> now + 1500 + int (lag env k) - start > 120000 \<Longrightarrow>
   poll_loop pre env tid start now k r w =
     poll_loop pre env tid start (now + 1500 + int (lag env k)) (Suc k) r'
       (emit (RetrieveRun tid (id' r)) (emit (Sleep 1500) w))"
  by (subst poll_loop.simps) (simp add: Let_def)

lemma poll_loop_induct [case_names Settled Raised TimedOut Again]:
  fixes pre :: string and env :: env and tid :: json and start :: int
  assumes "\<And>now k r w. \<not> pending r \<Longrightarrow> P now k r w"
    and "\<And>now k r w e. pending r \<Longrightarrow> retrieve_result env k = Inl e \<Longrightarrow> P now k r w"
    and "\<And>now k r w r'. pending r \<Longrightarrow> retrieve_result env k = Inr r' \<Longrightarrow>
           now + 1500 + int (lag env k) - start > 120000 \<Longrightarrow> P now k r w"
    and "\<And>now k r w r'. pending r \<Longrightarrow> retrieve_result env k = Inr r' \<Longrightarrow>
           \<not> now + 1500 + int (lag env k) - start > 120000 \<Longrightarrow>
           P (now + 1500 + int (lag env k)) (Suc k) r'
             (emit (RetrieveRun tid (id' r)) (emit (Sleep 1500) w)) \<Longrightarrow>
           P now k r w"
  shows "P now k r w"
proof -
  have "env' = env \<Longrightarrow> tid' = tid \<Longrightarrow> start' = start \<Longrightarrow> P now k r w"
    for pre' :: string and env' tid' start'
  proof (induction pre' env' tid' start' now k r w rule: poll_loop.induct)
    case (1 pre' env' tid' start' now k r w)
    note eqs = "1.prems"
    show ?case
    proof (cases "pending r")
      case False
      then show ?thesis by (rule assms(1))
    next
      case True
      show ?thesis
      proof (cases "retrieve_result env k")
        case (Inl e)
        from True Inl show ?thesis by (rule assms(2))
      next
        case (Inr r')
        show ?thesis
        proof (cases "now + 1500 + int (lag env k) - start > 120000")
          case late: True
          from True Inr late show ?thesis by (rule assms(3))
        next
          case False
          have "P (now + 1500 + int (lag env k)) (Suc k) r'
                  (emit (RetrieveRun tid (id' r)) (emit (Sleep 1500) w))"
            using "1.IH" [OF True refl refl _ _ eqs, of r'] Inr False eqs by simp
          with True Inr False show ?thesis by (rule assms(4))
        qed
      qed
    qed
  qed
  then show ?thesis by simp
qed

lemma poll_loop_frame:
  "user_threads (snd (snd (poll_loop pre env tid start now k r w))) = user_threads w \<and>
   disk (snd (snd (poll_loop pre env tid start now k r w))) = disk w"
proof (induction now k r w rule: poll_loop_induct [where env = env and tid = tid and start = start])
  case (Settled now k r w)
  then show ?case by (simp add: poll_loop_settled)
next
  case (Raised now k r w e)
  then show ?case by (simp add: poll_loop_raised)
next
  case (TimedOut now k r w r')
  then show ?case by (simp add: poll_loop_timed_out)
next
  case (Again now k r w r')
  then show ?case by (simp add: poll_loop_again)
qed










section \<open>What a run cycle leaves alone\<close>

lemma respond_frame:
  "respond pl mention env user_id tid r w = (oc, w') \<Longrightarrow> oc \<noteq> EmptyReply \<Longrightarrow>
   user_threads w' = user_threads w \<and> disk w' = disk w"
  by (auto simp: respond_def Let_def split: if_splits sum.splits)

text \<open>
  C6. A run cycle (steps 2 to 5) that ends in \<open>Timeout\<close>, \<open>RequiresAction\<close>, \<open>RunFailed\<close> or
  \<open>RunUnhandledStatus\<close> leaves the dictionary \<open>user_threads\<close> and the file exactly as they
  were before the cycle.
\<close>

theorem run_cycle_frame:
  assumes "run_cycle pl mention env user_id tid txt w = (oc, w')"
    and "oc \<in> {Timeout, RequiresAction, RunFailed, RunUnhandledStatus}"
  shows "user_threads w' = user_threads w \<and> disk w' = disk w"
proof (cases "post_result env")
  case (Some e)
  with assms show ?thesis by (auto simp: run_cycle_def)
next
  case None
  show ?thesis
  proof (cases "run_result env")
    case (Inl e)
    with None assms show ?thesis by (auto simp: run_cycle_def Let_def)
  next
    case (Inr r)
    let ?w2 = "emit (Log Debug) (emit (StartRun tid) (emit (Log Debug)
                 (emit (PostMessage tid txt) (emit (Log Debug) w))))"
    let ?p = "poll_loop (reply_prefix pl mention) env tid (start_time env) (start_time env) 0 r ?w2"
    obtain out fin w3 where p: "?p = (out, fin, w3)"
      by (cases ?p) auto
    from poll_loop_frame [of "reply_prefix pl mention" env tid "start_time env" "start_time env" 0 r ?w2]
    have f: "user_threads w3 = user_threads w" "disk w3 = disk w"
      by (simp_all add: p)
    show ?thesis
    proof (cases out)
      case (Settled r')
      with None Inr p assms have "respond pl mention env user_id tid r' w3 = (oc, w')"
        by (simp add: run_cycle_def Let_def)
      from respond_frame [OF this] assms(2) f show ?thesis by auto
    next
      case TimedOut
      with None Inr p assms f show ?thesis by (auto simp: run_cycle_def Let_def)
    next
      case (PollRaised e)
      with None Inr p assms f show ?thesis by (auto simp: run_cycle_def Let_def)
    qed
  qed
qed

theorem run_cycle_frame_witness:
  "run_cycle DirectMessage ''<@7>''
     (calm\<lparr>run_result := Inr \<lparr>id' = ''run_1'', status = ''failed'', last_error = Some ''server_error''\<rparr>\<rparr>)
     7 (JStr ''thread_1'') ''hi''
     \<lparr>user_threads = [(7, JStr ''thread_1'')], disk = Document (JObj [(''7'', JStr ''thread_1'')]), trace = []\<rparr>
   = (RunFailed,
      \<lparr>user_threads = [(7, JStr ''thread_1'')], disk = Document (JObj [(''7'', JStr ''thread_1'')]),
       trace = [Log Debug, PostMessage (JStr ''thread_1'') ''hi'', Log Debug, StartRun (JStr ''thread_1''),
                Log Debug, Log Error,
                Send ''Sorry, something went wrong while processing. (Error code: server_error)'']\<rparr>)
   \<and> RunFailed \<in> {Timeout, RequiresAction, RunFailed, RunUnhandledStatus}
   \<and> (user_threads \<lparr>user_threads = [(7, JStr ''thread_1'')], disk = Document (JObj [(''7'', JStr ''thread_1'')]),
       trace = [Log Debug, PostMessage (JStr ''thread_1'') ''hi'', Log Debug, StartRun (JStr ''thread_1''),
                Log Debug, Log Error,
                Send ''Sorry, something went wrong while processing. (Error code: server_error)'']\<rparr>
        = user_threads \<lparr>user_threads = [(7, JStr ''thread_1'')], disk = Document (JObj [(''7'', JStr ''thread_1'')]), trace = []\<rparr>
      \<and> disk \<lparr>user_threads = [(7, JStr ''thread_1'')], disk = Document (JObj [(''7'', JStr ''thread_1'')]),
       trace = [Log Debug, PostMessage (JStr ''thread_1'') ''hi'', Log Debug, StartRun (JStr ''thread_1''),
                Log Debug, Log Error,
                Send ''Sorry, something went wrong while processing. (Error code: server_error)'']\<rparr>
        = disk \<lparr>user_threads = [(7, JStr ''thread_1'')], disk = Document (JObj [(''7'', JStr ''thread_1'')]), trace = []\<rparr>)"
proof -
  have e: "run_cycle DirectMessage ''<@7>''
     (calm\<lparr>run_result := Inr \<lparr>id' = ''run_1'', status = ''failed'', last_error = Some ''server_error''\<rparr>\<rparr>)
     7 (JStr ''thread_1'') ''hi''
     \<lparr>user_threads = [(7, JStr ''thread_1'')], disk = Document (JObj [(''7'', JStr ''thread_1'')]), trace = []\<rparr>
   = (RunFailed,
      \<lparr>user_threads = [(7, JStr ''thread_1'')], disk = Document (JObj [(''7'', JStr ''thread_1'')]),
       trace = [Log Debug, PostMessage (JStr ''thread_1'') ''hi'', Log Debug, StartRun (JStr ''thread_1''),
                Log Debug, Log Error,
                Send ''Sorry, something went wrong while processing. (Error code: server_error)'']\<rparr>)"
    by code_simp
  have m: "RunFailed \<in> {Timeout, RequiresAction, RunFailed, RunUnhandledStatus}" by simp
  show ?thesis by (rule conjI [OF e conjI [OF m run_cycle_frame [OF e m]]])
qed

section \<open>The reset after an empty reply\<close>

lemma trace_save_threads [simp]:
  "trace (save_threads r w) = trace w @ (if r = Written then [] else [Log Error])"
  by (cases r) (simp_all add: save_threads_def)

lemma disk_save_threads_written [simp]:
  "disk (save_threads Written w) = Document (JObj (data_to_save (user_threads w)))"
  by (simp add: save_threads_def)

lemma resolve_fresh:
  "\<not> truthy (dict_get (user_threads w) user_id) \<Longrightarrow> create_result env = Inr new_id \<Longrightarrow>
   fst (resolve pl mention env user_id w) = Some (JStr new_id)"
  by (simp add: resolve_def Let_def)

text \<open>
  C2. When the run is \<^verbatim>\<open>completed\<close> and no text of the assistant for this run is found,
  while the dictionary maps the user to the (true) thread id: the outcome is \<open>EmptyReply\<close>,
  the entry of the user is deleted and a \<open>save_threads\<close> that succeeds leaves the file holding
  the dictionary without it, \<^verbatim>\<open>threads.delete\<close> is called exactly once, on that thread, and
  whatever it answers or raises (\<^verbatim>\<open>NotFoundError\<close> included) the handler goes on, the last
  thing sent is the text that the context was reset, and step 1 for the next message of the
  user finds no mapping and creates a new thread.
\<close>

theorem empty_reply_resets:
  assumes completed: "status r = ''completed''"
    and listed: "list_result env = Inr data"
    and empty: "assistant_responses (id' r) data = []"
    and mapped: "map_of (user_threads w) user_id = Some thread_id"
    and known: "truthy thread_id"
    and res: "respond pl mention env user_id thread_id r w = (oc, w')"
  shows "oc = EmptyReply
     \<and> user_threads w' = AList.delete user_id (user_threads w)
     \<and> map_of (user_threads w') user_id = None
     \<and> (save_on_reset env = Written \<longrightarrow>
           disk w' = Document (JObj (data_to_save (user_threads w'))))
     \<and> filter is_delete (trace w') = filter is_delete (trace w) @ [DeleteThread thread_id]
     \<and> last (trace w') = Send (case pl of DirectMessage \<Rightarrow> reset_text
                                | ServerMention \<Rightarrow> strip (mention @ '' '' @ reset_text))
     \<and> (\<forall>pl' mention' env' new_id. create_result env' = Inr new_id \<longrightarrow>
           fst (resolve pl' mention' env' user_id w') = Some (JStr new_id) \<and>
           calls is_create (snd (resolve pl' mention' env' user_id w')) = calls is_create w' + 1)"
proof -
  let ?w1 = "emit (ListMessages thread_id) (emit (Log Debug) w)"
  have get: "dict_get (user_threads w) user_id = thread_id" and inn: "dict_in user_id (user_threads w)"
    using mapped by (simp_all add: dict_get_def dict_in_def)
  from res
  have oc: "oc = EmptyReply" and w': "w' = reset_thread pl mention env user_id ?w1"
    by (simp_all add: respond_def Let_def completed listed empty)
  have ut: "user_threads w' = AList.delete user_id (user_threads w)"
    using get inn known by (simp add: w' reset_thread_def Let_def split: sum.splits exn.splits)
  have gone: "map_of (user_threads w') user_id = None"
    by (simp add: ut delete_conv')
  have dsk: "save_on_reset env = Written \<longrightarrow>
      disk w' = Document (JObj (data_to_save (user_threads w')))"
    using get inn known
    by (simp add: w' reset_thread_def Let_def split: sum.splits exn.splits)
  have del: "filter is_delete (trace w') = filter is_delete (trace w) @ [DeleteThread thread_id]"
    using get inn known
    by (simp add: w' reset_thread_def Let_def split: sum.splits exn.splits)
  have lst: "last (trace w') = Send (case pl of DirectMessage \<Rightarrow> reset_text
                                | ServerMention \<Rightarrow> strip (mention @ '' '' @ reset_text))"
    by (simp add: w' reset_thread_def Let_def)
  have nxt: "\<forall>pl' mention' env' new_id. create_result env' = Inr new_id \<longrightarrow>
           fst (resolve pl' mention' env' user_id w') = Some (JStr new_id) \<and>
           calls is_create (snd (resolve pl' mention' env' user_id w')) = calls is_create w' + 1"
    using gone by (simp add: resolve_fresh calls_resolve dict_get_def)
  from oc ut gone dsk del lst nxt show ?thesis by blast
qed

theorem empty_reply_resets_witness:
  "status \<lparr>id' = ''run_1'', status = ''completed'', last_error = None\<rparr> = ''completed''
   \<and> list_result (calm\<lparr>delete_result := Inl NotFoundError\<rparr>) = Inr []
   \<and> assistant_responses (id' \<lparr>id' = ''run_1'', status = ''completed'', last_error = None\<rparr>) [] = []
   \<and> map_of (user_threads \<lparr>user_threads = [(7, JStr ''thread_1'')],
          disk = Document (JObj [(''7'', JStr ''thread_1'')]), trace = []\<rparr>) 7
        = Some (JStr ''thread_1'')
   \<and> truthy (JStr ''thread_1'')
   \<and> respond DirectMessage ''<@7>'' (calm\<lparr>delete_result := Inl NotFoundError\<rparr>) 7 (JStr ''thread_1'')
        \<lparr>id' = ''run_1'', status = ''completed'', last_error = None\<rparr>
        \<lparr>user_threads = [(7, JStr ''thread_1'')],
         disk = Document (JObj [(''7'', JStr ''thread_1'')]), trace = []\<rparr>
      = (EmptyReply,
         \<lparr>user_threads = [], disk = Document (JObj []),
          trace = [Log Debug, ListMessages (JStr ''thread_1''), Log Warning, Log Info, Log Info,
                   DeleteThread (JStr ''thread_1''), Log Warning, Send reset_text]\<rparr>)
   \<and> create_result calm = Inr ''thread_1''
   \<and> fst (resolve DirectMessage ''<@7>'' calm 7
               \<lparr>user_threads = [], disk = Document (JObj []),
                trace = [Log Debug, ListMessages (JStr ''thread_1''), Log Warning, Log Info,
                         Log Info, DeleteThread (JStr ''thread_1''), Log Warning,
                         Send reset_text]\<rparr>) = Some (JStr ''thread_1'')"
proof -
  let ?r = "\<lparr>id' = ''run_1'', status = ''completed'', last_error = None\<rparr>"
  let ?env = "calm\<lparr>delete_result := Inl NotFoundError\<rparr>"
  let ?w = "\<lparr>user_threads = [(7, JStr ''thread_1'')],
         disk = Document (JObj [(''7'', JStr ''thread_1'')]), trace = []\<rparr>"
  let ?w' = "\<lparr>user_threads = [], disk = Document (JObj []),
          trace = [Log Debug, ListMessages (JStr ''thread_1''), Log Warning, Log Info, Log Info,
                   DeleteThread (JStr ''thread_1''), Log Warning, Send reset_text]\<rparr>"
  have h1: "status ?r = ''completed''" by simp
  have h2: "list_result ?env = Inr []" by (simp add: calm_def)
  have h3: "assistant_responses (id' ?r) [] = []" by (simp add: assistant_responses_def)
  have h4: "map_of (user_threads ?w) 7 = Some (JStr ''thread_1'')" by simp
  have h5: "truthy (JStr ''thread_1'')" by simp
  have h6: "respond DirectMessage ''<@7>'' ?env 7 (JStr ''thread_1'') ?r ?w = (EmptyReply, ?w')"
    by code_simp
  have h7: "create_result calm = Inr ''thread_1''" by (simp add: calm_def)
  from empty_reply_resets [OF h1 h2 h3 h4 h5 h6]
  have "\<forall>pl' mention' env' new_id. create_result env' = Inr new_id \<longrightarrow>
         fst (resolve pl' mention' env' 7 ?w') = Some (JStr new_id)"
    by blast
  with h7 have c: "fst (resolve DirectMessage ''<@7>'' calm 7 ?w') = Some (JStr ''thread_1'')"
    by blast
  show ?thesis
    by (intro conjI) (rule h1, rule h2, rule h3, rule h4, rule h5, rule h6, rule h7, rule c)
qed

text \<open>
  The hypotheses of the reset hold where the handler reaches it: step 1 leaves the user
  mapped to the thread id it returns, whenever that id is true, and the polling loop does
  not touch the dictionary. One message handled from end to end: the user has a thread, the
  run is completed at once and the thread holds no text for it.
\<close>

lemma resolve_maps:
  assumes "resolve pl mention env user_id w = (Some thread_id, w1)" and "truthy thread_id"
  shows "map_of (user_threads w1) user_id = Some thread_id"
proof (cases "truthy (dict_get (user_threads w) user_id)")
  case True
  with assms(1) have "dict_get (user_threads w) user_id = thread_id" "user_threads w1 = user_threads w"
    by (auto simp: resolve_def)
  with True show ?thesis
    by (cases "map_of (user_threads w) user_id") (auto simp: dict_get_def)
next
  case False
  with assms(1) show ?thesis
    by (cases "create_result env") (auto simp: resolve_def Let_def update_conv')
qed

lemma empty_reply_end_to_end:
  "on_message 1
     (calm\<lparr>run_result := Inr \<lparr>id' = ''run_1'', status = ''completed'', last_error = None\<rparr>,
            list_result := Inr [\<lparr>role = ''user'', run_id = None, content = [TextBlock ''hi'']\<rparr>],
            delete_result := Inl NotFoundError\<rparr>)
     \<lparr>author_is_bot = False, author_id = 7, author_mention = ''<@7>'', guild = None,
      mentioned = False, mention_everyone = False, text_content = ''hi''\<rparr>
     \<lparr>user_threads = [(7, JStr ''thread_0'')],
      disk = Document (JObj [(''7'', JStr ''thread_0'')]), trace = []\<rparr>
   = \<lparr>user_threads = [], disk = Document (JObj []),
      trace = [Log Info, Log Debug,
               Log Debug, PostMessage (JStr ''thread_0'') ''hi'',
               Log Debug, StartRun (JStr ''thread_0''), Log Debug,
               Log Debug, ListMessages (JStr ''thread_0''),
               Log Warning, Log Info, Log Info, DeleteThread (JStr ''thread_0''), Log Warning,
               Send reset_text]\<rparr>"
  by code_simp

section \<open>The text of the reply\<close>

lemma single_segment_reply:
  "respond DirectMessage ''<@7>''
     (calm\<lparr>list_result := Inr
        [\<lparr>role = ''user'', run_id = None, content = [TextBlock ''hi'']\<rparr>,
         \<lparr>role = ''assistant'', run_id = Some ''run_1'', content = [TextBlock ''hello'']\<rparr>]\<rparr>)
     7 (JStr ''thread_1'') \<lparr>id' = ''run_1'', status = ''completed'', last_error = None\<rparr>
     \<lparr>user_threads = [(7, JStr ''thread_1'')], disk = NoFile, trace = []\<rparr>
   = (Replied,
      \<lparr>user_threads = [(7, JStr ''thread_1'')], disk = NoFile,
       trace = [Log Debug, ListMessages (JStr ''thread_1''), Log Info, Send ''hello'']\<rparr>)"
  by code_simp

text \<open>
  C3. The reply is not always in chronological order: \<^verbatim>\<open>assistant_responses\<close> is filled
  newest message first, but with the text blocks of one message in their own order, and line
  176 reverses the whole list. An assistant message of this run with the two text blocks
  \<^verbatim>\<open>first\<close> and \<^verbatim>\<open>second\<close> is sent as \<^verbatim>\<open>second\<close>, newline, \<^verbatim>\<open>first\<close>.
\<close>

theorem reply_reverses_blocks:
  "respond DirectMessage ''<@7>''
     (calm\<lparr>list_result := Inr
        [\<lparr>role = ''user'', run_id = None, content = [TextBlock ''hi'']\<rparr>,
         \<lparr>role = ''assistant'', run_id = Some ''run_1'',
          content = [TextBlock ''first'', TextBlock ''second'']\<rparr>]\<rparr>)
     7 (JStr ''thread_1'') \<lparr>id' = ''run_1'', status = ''completed'', last_error = None\<rparr>
     \<lparr>user_threads = [(7, JStr ''thread_1'')], disk = NoFile, trace = []\<rparr>
   = (Replied,
      \<lparr>user_threads = [(7, JStr ''thread_1'')], disk = NoFile,
       trace = [Log Debug, ListMessages (JStr ''thread_1''), Log Info,
                Send (''second'' @ [CHR 0x0A] @ ''first'')]\<rparr>)"
  by code_simp

section \<open>Long replies\<close>

lemma ceil_cover: "(n::nat) \<le> (n + 1989) div 1990 * 1990"
proof -
  have "(n + 1989) div 1990 * 1990 + (n + 1989) mod 1990 = n + 1989"
    by (rule div_mult_mod_eq)
  moreover have "(n + 1989) mod 1990 < 1990" by simp
  ultimately show ?thesis by linarith
qed

lemma below_ceil: "(i::nat) < (n + 1989) div 1990 \<Longrightarrow> i * 1990 < n"
proof -
  assume "i < (n + 1989) div 1990"
  then have "Suc i \<le> (n + 1989) div 1990" by simp
  then have "Suc i * 1990 \<le> n + 1989" by (simp only: less_eq_div_iff_mult_less_eq zero_less_numeral)
  then show ?thesis by simp
qed

lemma below_ceil_full: "Suc i < (n + 1989) div 1990 \<Longrightarrow> i * 1990 + 1990 \<le> n"
proof -
  assume "Suc i < (n + 1989) div 1990"
  then have "Suc i * 1990 < n" by (rule below_ceil)
  then show ?thesis by simp
qed

lemma concat_parts_take:
  "concat (map (\<lambda>i. take k (drop i s)) (map (\<lambda>j. j * k) [0 ..< m])) = take (m * k) s"
proof (induction m)
  case 0
  show ?case by simp
next
  case (Suc m)
  have "take (m * k) s @ take k (drop (m * k) s) = take (m * k + k) s"
    by (simp add: take_add)
  with Suc show ?case by (simp add: add.commute)
qed

lemma range_step_1990:
  "range_step n 1990 = map (\<lambda>j. j * 1990) [0 ..< (n + 1989) div 1990]"
  by (simp add: range_step_def add.commute)

lemma length_parts: "length (parts s) = (length s + 1989) div 1990"
  unfolding parts_def range_step_1990 by simp

lemma concat_parts: "concat (parts s) = s"
proof -
  have "concat (parts s) = take ((length s + 1989) div 1990 * 1990) s"
    unfolding parts_def range_step_1990 by (rule concat_parts_take)
  also have "\<dots> = s"
    using ceil_cover [of "length s"] by simp
  finally show ?thesis .
qed

lemma nth_parts:
  "i < length (parts s) \<Longrightarrow> parts s ! i = take 1990 (drop (i * 1990) s)"
  unfolding parts_def range_step_1990 by simp

lemma length_nth_parts:
  assumes "i < length (parts s)"
  shows "0 < length (parts s ! i) \<and> length (parts s ! i) \<le> 1990 \<and>
         (Suc i < length (parts s) \<longrightarrow> length (parts s ! i) = 1990)"
proof -
  from assms have i: "i < (length s + 1989) div 1990" by (simp add: length_parts)
  then have lt: "i * 1990 < length s" by (rule below_ceil)
  have full: "Suc i < (length s + 1989) div 1990 \<longrightarrow> i * 1990 + 1990 \<le> length s"
    using below_ceil_full by blast
  have len: "length (parts s ! i) = min (length s - i * 1990) 1990"
    by (simp add: nth_parts [OF assms])
  show ?thesis
    unfolding len length_parts using lt full by (auto simp: min_def)
qed

lemma sent_texts_parts: "sent_texts (concat (map (\<lambda>part. [Send part, Sleep 500]) ps)) = ps"
  by (induction ps) simp_all


text \<open>
  C7. \<open>parts\<close> cuts a reply into pieces of 1990 characters: the pieces in order make up the
  reply again, there are \<open>\<lceil>n / 1990\<rceil>\<close> of them for a reply of length \<open>n\<close> (3 for 5000), the
  \<open>i\<close>-th piece is the 1990 characters from position \<open>1990 i\<close>, no piece is empty, and all
  but the last have exactly 1990 characters. A reply of more than 2000 characters is sent as
  these pieces, one message each and in order (after the mention, in a server); in every
  case the texts sent make up the reply, after the mention in a server.
\<close>

theorem reply_is_chunked:
  "concat (parts s) = s
   \<and> length (parts s) = (length s + 1989) div 1990
   \<and> (length s = 5000 \<longrightarrow> length (parts s) = 3)
   \<and> (\<forall>i < length (parts s).
         parts s ! i = take 1990 (drop (i * 1990) s) \<and>
         0 < length (parts s ! i) \<and> length (parts s ! i) \<le> 1990 \<and>
         (Suc i < length (parts s) \<longrightarrow> length (parts s ! i) = 1990))
   \<and> sent_texts (send_response DirectMessage mention s)
       = (if length s \<le> 2000 then [s] else parts s)
   \<and> sent_texts (send_response ServerMention mention s)
       = (if length (mention @ '' '' @ s) \<le> 2000 then [mention @ '' '' @ s]
          else (mention @ '' '') # parts s)
   \<and> concat (sent_texts (send_response pl mention s)) = reply_prefix pl mention @ s"
proof -
  have a: "length s = 5000 \<longrightarrow> length (parts s) = 3"
    by (simp add: length_parts)
  have b: "\<forall>i < length (parts s).
         parts s ! i = take 1990 (drop (i * 1990) s) \<and>
         0 < length (parts s ! i) \<and> length (parts s ! i) \<le> 1990 \<and>
         (Suc i < length (parts s) \<longrightarrow> length (parts s ! i) = 1990)"
    using nth_parts length_nth_parts by blast
  have c: "sent_texts (send_response DirectMessage mention s)
       = (if length s \<le> 2000 then [s] else parts s)"
    by (simp add: send_response_def sent_texts_parts)
  have d: "sent_texts (send_response ServerMention mention s)
       = (if length (mention @ '' '' @ s) \<le> 2000 then [mention @ '' '' @ s]
          else (mention @ '' '') # parts s)"
    by (simp add: send_response_def sent_texts_parts Let_def)
  have e: "concat (sent_texts (send_response pl mention s)) = reply_prefix pl mention @ s"
    by (cases pl) (simp_all add: c d reply_prefix_def concat_parts)
  show ?thesis
    by (intro conjI) (rule concat_parts, rule length_parts, rule a, rule b, rule c, rule d, rule e)
qed

theorem reply_is_chunked_witness:
  "length (replicate 5000 (CHR ''a'')) = 5000
   \<and> length (parts (replicate 5000 (CHR ''a''))) = 3
   \<and> concat (parts (replicate 5000 (CHR ''a''))) = replicate 5000 (CHR ''a'')
   \<and> sent_texts (send_response DirectMessage ''<@7>'' (replicate 5000 (CHR ''a'')))
       = parts (replicate 5000 (CHR ''a''))"
proof -
  let ?s = "replicate 5000 (CHR ''a'')"
  note t = reply_is_chunked [of ?s "''<@7>''" DirectMessage]
  have l: "length ?s = 5000" by (rule length_replicate)
  from t l have n: "length (parts ?s) = 3" by blast
  from t have c: "concat (parts ?s) = ?s" by blast
  have big: "\<not> length ?s \<le> 2000" unfolding l by simp
  from t have "sent_texts (send_response DirectMessage ''<@7>'' ?s)
       = (if length ?s \<le> 2000 then [?s] else parts ?s)" by blast
  then have d: "sent_texts (send_response DirectMessage ''<@7>'' ?s) = parts ?s"
    using big by (simp only: if_False)
  show ?thesis by (intro conjI) (rule l, rule n, rule c, rule d)
qed

section \<open>Messages without text\<close>

lemma empty_mention_prompts:
  "\<not> author_is_bot m \<Longrightarrow> guild m \<noteq> None \<Longrightarrow> mentioned m \<Longrightarrow> \<not> mention_everyone m \<Longrightarrow>
   strip (remove_all (''<@'' @ py_str bot_id @ ''>'')
            (remove_all (''<@!'' @ py_str bot_id @ ''>'') (text_content m))) = [] \<Longrightarrow>
   on_message bot_id env m w =
     emit (Send (''Hi '' @ author_mention m @ '', did you need something?'')) (emit (Log Info) w)"
  by (auto simp: on_message_def)


text \<open>
  C9. A direct message with empty content is not answered with a question: the
  direct-message branch has no check of the text, so for a user without a thread it creates
  a thread, saves the dictionary, adds the empty message to the thread, starts a run and
  sends the assistant's reply.
\<close>

theorem empty_dm_runs_assistant:
  "on_message 1
     (calm\<lparr>run_result := Inr \<lparr>id' = ''run_1'', status = ''completed'', last_error = None\<rparr>,
            list_result := Inr
              [\<lparr>role = ''user'', run_id = None, content = [TextBlock []]\<rparr>,
               \<lparr>role = ''assistant'', run_id = Some ''run_1'', content = [TextBlock ''hello'']\<rparr>]\<rparr>)
     \<lparr>author_is_bot = False, author_id = 7, author_mention = ''<@7>'', guild = None,
      mentioned = False, mention_everyone = False, text_content = []\<rparr>
     \<lparr>user_threads = [], disk = NoFile, trace = []\<rparr>
   = \<lparr>user_threads = [(7, JStr ''thread_1'')],
      disk = Document (JObj [(''7'', JStr ''thread_1'')]),
      trace = [Log Info, Log Info, CreateThread, Log Info,
               Log Debug, PostMessage (JStr ''thread_1'') [],
               Log Debug, StartRun (JStr ''thread_1''), Log Debug,
               Log Debug, ListMessages (JStr ''thread_1''), Log Info, Send ''hello'']\<rparr>"
  by code_simp

end
